theory Spec2Isabelle
  imports Complex_Main
begin

section \<open>Data model of \<open>server/index.js\<close>\<close>

text \<open>
  The server keeps one JSON document with three arrays: accounts, items and orders.
  Every handler loads the document, works on the loaded copy and writes it back with
  \<open>saveData\<close> only on its success path. A handler is modelled as a function from the
  stored document and the request body to the document stored afterwards and the
  response: every early \<open>return res.status(...)\<close> is a branch that hands back the
  document it was given.

  Numbers are JavaScript numbers in the source. Identifiers, stock and quantities are
  modelled as mathematical integers, which is what the source computes as long as the
  values are integers inside the safe-integer range; fractions, \<open>NaN\<close> and numbers sent
  as strings are outside the model. Prices and the order amount (\<open>toFixed(2)\<close> on a
  floating-point product) are left out: nothing below depends on them. A field that may
  be missing is an \<open>option\<close>; an item without an \<open>active\<close> field counts as active, as in
  the test \<open>active !== false\<close>. Strings are byte strings; \<open>toLowerCase\<close> and \<open>trim\<close>
  are modelled on ASCII. Time stamps (\<open>new Date().toISOString()\<close>) are a parameter
  \<open>now\<close> of the handler that writes them.
\<close>

record account =
  acc_username :: string
  fullName :: string
  passwordHash :: "string option"

record item =
  item_id :: int
  item_name :: string
  stock :: int
  active :: bool

record order =
  order_id :: int
  itemId :: int
  itemName :: string
  username :: string
  buyerName :: string
  quantity :: int
  status :: string
  arrivalDate :: "string option"
  createdAt :: string
  cancelToken :: "string option"
  canceledAt :: "string option"

record data =
  accounts :: "account list"
  items :: "item list"
  orders :: "order list"

text \<open>One constructor for each error message the handlers send.\<close>

datatype error =
    NoItemId              \<comment> \<open>400 \<open>No itemId provided\<close>\<close>
  | ItemNotFound          \<comment> \<open>400 \<open>Item not found\<close>\<close>
  | NotEnoughStock        \<comment> \<open>400 \<open>Not enough stock\<close>\<close>
  | FullNameRequired      \<comment> \<open>400 \<open>Full name required for guest purchases\<close>\<close>
  | OrderIdRequired       \<comment> \<open>400 \<open>orderId required\<close>\<close>
  | OrderNotFound         \<comment> \<open>400 \<open>Order not found\<close>\<close>
  | OrderAlreadyCanceled  \<comment> \<open>400 \<open>Order already canceled\<close>\<close>
  | NotAuthorized         \<comment> \<open>403 \<open>Not authorized to cancel this order\<close>\<close>
  | AdminAuthRequired     \<comment> \<open>403 \<open>Admin authentication required\<close>\<close>

subsection \<open>String helpers\<close>

definition lower_char :: "char \<Rightarrow> char" where
  "lower_char c =
     (case map_of (zip ''ABCDEFGHIJKLMNOPQRSTUVWXYZ'' ''abcdefghijklmnopqrstuvwxyz'') c of
        None \<Rightarrow> c
      | Some l \<Rightarrow> l)"

definition toLowerCase :: "string \<Rightarrow> string" where
  "toLowerCase s = map lower_char s"

definition is_space :: "char \<Rightarrow> bool" where
  "is_space c = (let n = (of_char c :: nat) in n = 32 \<or> (9 \<le> n \<and> n \<le> 13))"

definition trim :: "string \<Rightarrow> string" where
  "trim s = rev (dropWhile is_space (rev (dropWhile is_space s)))"

text \<open>JavaScript truthiness of the values that the handlers test.\<close>

definition truthy_str :: "string \<Rightarrow> bool" where
  "truthy_str s = (s \<noteq> [])"

definition truthy_opt :: "string option \<Rightarrow> bool" where
  "truthy_opt t = (case t of None \<Rightarrow> False | Some s \<Rightarrow> s \<noteq> [])"

subsection \<open>Array helpers\<close>

text \<open>
  \<open>Array.prototype.find\<close> is \<^const>\<open>find\<close>. The object it returns is the array's own
  element, so an assignment to one of its fields changes the first element that
  satisfies the predicate: \<open>update_first\<close>.
\<close>

fun update_first :: "('a \<Rightarrow> bool) \<Rightarrow> ('a \<Rightarrow> 'a) \<Rightarrow> 'a list \<Rightarrow> 'a list" where
  "update_first P f [] = []"
| "update_first P f (x # xs) = (if P x then f x # xs else x # update_first P f xs)"

text \<open>\<open>nextId\<close>, on the list of the \<open>id\<close> fields of the array.\<close>

definition nextId :: "int list \<Rightarrow> int" where
  "nextId ids = (case ids of [] \<Rightarrow> 1 | x # xs \<Rightarrow> fold max xs x + 1)"

section \<open>Order creation: \<open>POST /api/order\<close>\<close>

record order_req =
  r_username :: "string option"
  r_buyerFullName :: "string option"
  r_itemId :: "int option"
  r_quantity :: "int option"

definition alphabet :: string where
  "alphabet = ''abcdefghijklmnopqrstuvwxyz0123456789''"

text \<open>
  \<open>generateCancelToken\<close>. The parameter \<open>random\<close> stands for \<open>Math.random\<close>:
  \<open>random i\<close> is the value of the \<open>i\<close>-th call.
\<close>

definition generateCancelToken :: "(nat \<Rightarrow> real) \<Rightarrow> string" where
  "generateCancelToken random = map (\<lambda>i. alphabet ! nat \<lfloor>random i * 36\<rfloor>) [0..<24]"

definition non_guest :: "string \<Rightarrow> bool" where
  "non_guest u = (truthy_str u \<and> toLowerCase u \<noteq> ''guest'')"

text \<open>The block ``determine buyer name'': the only part that can still reject the request.\<close>

definition buyer_name :: "data \<Rightarrow> string \<Rightarrow> string option \<Rightarrow> error + string" where
  "buyer_name d uname buyerFullName =
     (if non_guest uname then
        (case find (\<lambda>a. toLowerCase (acc_username a) = toLowerCase uname) (accounts d) of
           Some acc \<Rightarrow> Inr (if truthy_str (fullName acc) then fullName acc else acc_username acc)
         | None \<Rightarrow> Inr uname)
      else
        (case buyerFullName of
           None \<Rightarrow> Inl FullNameRequired
         | Some n \<Rightarrow> if n = [] \<or> length (trim n) < 2 then Inl FullNameRequired
                     else Inr (trim n)))"

text \<open>
  The \<open>order\<close> object literal, with the cancel token that the handler adds to it for a
  guest. \<open>uname\<close> is the request's \<open>username\<close>, \<open>bname\<close> the buyer name found above.
\<close>

definition new_order ::
  "(nat \<Rightarrow> real) \<Rightarrow> string \<Rightarrow> data \<Rightarrow> item \<Rightarrow> string \<Rightarrow> string \<Rightarrow> int \<Rightarrow> order" where
  "new_order random now d it uname bname qty =
     (let ouser = (if non_guest uname then uname else ''guest'')
      in \<lparr> order_id = nextId (map order_id (orders d)),
           itemId = item_id it,
           itemName = item_name it,
           username = ouser,
           buyerName = bname,
           quantity = qty,
           status = ''processing'',
           arrivalDate = None,
           createdAt = now,
           cancelToken =
             (if \<not> truthy_str ouser \<or> toLowerCase ouser = ''guest''
              then Some (generateCancelToken random) else None),
           canceledAt = None \<rparr>)"

definition placeOrder ::
  "(nat \<Rightarrow> real) \<Rightarrow> string \<Rightarrow> data \<Rightarrow> order_req \<Rightarrow> data \<times> (error + order)" where
  "placeOrder random now d req =
     (let uname = (case r_username req of None \<Rightarrow> ''guest'' | Some u \<Rightarrow> u);
          qty = (case r_quantity req of None \<Rightarrow> 1 | Some q \<Rightarrow> q)
      in
      case r_itemId req of
        None \<Rightarrow> (d, Inl NoItemId)
      | Some iid \<Rightarrow>
          if iid = 0 then (d, Inl NoItemId)
          else
            let wanted = (\<lambda>it. item_id it = iid \<and> active it) in
            (case find wanted (items d) of
              None \<Rightarrow> (d, Inl ItemNotFound)
            | Some it \<Rightarrow>
                if stock it < qty then (d, Inl NotEnoughStock)
                else
                  (case buyer_name d uname (r_buyerFullName req) of
                     Inl e \<Rightarrow> (d, Inl e)
                   | Inr bname \<Rightarrow>
                       let items' = update_first wanted (\<lambda>i. i\<lparr>stock := stock i - qty\<rparr>) (items d);
                           ord = new_order random now d it uname bname qty
                       in (d\<lparr>items := items', orders := orders d @ [ord]\<rparr>, Inr ord))))"

section \<open>Cancellation: \<open>POST /api/cancel-order\<close>\<close>

record cancel_req =
  c_orderId :: "int option"
  c_username :: string
  c_password :: string
  c_cancelToken :: "string option"

text \<open>
  \<open>checkAdminCredentials\<close>. The parameter \<open>compareSync\<close> stands for
  \<open>bcrypt.compareSync\<close> (password first, hash second).
\<close>

definition checkAdminCredentials ::
  "(string \<Rightarrow> string \<Rightarrow> bool) \<Rightarrow> data \<Rightarrow> string \<Rightarrow> string \<Rightarrow> bool" where
  "checkAdminCredentials compareSync d uname password =
     (if \<not> truthy_str uname \<or> \<not> truthy_str password then False
      else if toLowerCase uname \<noteq> ''admin'' then False
      else
        (case find (\<lambda>a. truthy_str (acc_username a) \<and> toLowerCase (acc_username a) = ''admin'')
                   (accounts d) of
           None \<Rightarrow> False
         | Some admin \<Rightarrow>
             (case passwordHash admin of
                None \<Rightarrow> False
              | Some h \<Rightarrow> if h = [] then False else compareSync password h)))"

text \<open>The three authorization branches of the cancel handler, in the source's order.\<close>

definition authorized ::
  "(string \<Rightarrow> string \<Rightarrow> bool) \<Rightarrow> data \<Rightarrow> cancel_req \<Rightarrow> order \<Rightarrow> bool" where
  "authorized compareSync d req ord =
     (if truthy_str (c_username req) \<and> truthy_str (c_password req)
         \<and> toLowerCase (c_username req) = ''admin''
         \<and> checkAdminCredentials compareSync d (c_username req) (c_password req)
      then True
      else if truthy_str (c_username req) \<and> truthy_str (username ord)
         \<and> toLowerCase (username ord) \<noteq> ''guest''
         \<and> toLowerCase (c_username req) = toLowerCase (username ord)
      then True
      else if truthy_opt (c_cancelToken req) \<and> truthy_opt (cancelToken ord)
         \<and> c_cancelToken req = cancelToken ord
      then True
      else False)"

definition cancelOrder ::
  "(string \<Rightarrow> string \<Rightarrow> bool) \<Rightarrow> string \<Rightarrow> data \<Rightarrow> cancel_req \<Rightarrow> data \<times> (error + order)" where
  "cancelOrder compareSync now d req =
     (case c_orderId req of
        None \<Rightarrow> (d, Inl OrderIdRequired)
      | Some oid \<Rightarrow>
          if oid = 0 then (d, Inl OrderIdRequired)
          else
            let sought = (\<lambda>x. order_id x = oid) in
            (case find sought (orders d) of
              None \<Rightarrow> (d, Inl OrderNotFound)
            | Some ord \<Rightarrow>
                if status ord = ''canceled'' then (d, Inl OrderAlreadyCanceled)
                else if \<not> authorized compareSync d req ord then (d, Inl NotAuthorized)
                else
                  let items' = update_first (\<lambda>i. item_id i = itemId ord)
                                 (\<lambda>i. i\<lparr>stock := stock i + quantity ord\<rparr>) (items d);
                      upd = (\<lambda>x. x\<lparr>status := ''canceled'', canceledAt := Some now\<rparr>)
                  in (d\<lparr>items := items', orders := update_first sought upd (orders d)\<rparr>,
                      Inr (upd ord))))"

section \<open>Administration\<close>

record admin_req =
  a_username :: string
  a_password :: string

text \<open>
  \<open>checkAdmin\<close> reads the two credentials from the body or the query string, with the
  empty string when neither has them, and answers 403 when they are not the
  administrator's.
\<close>

definition checkAdmin :: "(string \<Rightarrow> string \<Rightarrow> bool) \<Rightarrow> data \<Rightarrow> admin_req \<Rightarrow> bool" where
  "checkAdmin compareSync d cred =
     checkAdminCredentials compareSync d (a_username cred) (a_password cred)"

subsection \<open>\<open>POST /api/admin/update-arrival\<close>\<close>

definition updateArrival ::
  "(string \<Rightarrow> string \<Rightarrow> bool) \<Rightarrow> data \<Rightarrow> admin_req \<Rightarrow> int \<Rightarrow> string option
     \<Rightarrow> data \<times> (error + order)" where
  "updateArrival compareSync d cred orderId arrival =
     (if \<not> checkAdmin compareSync d cred then (d, Inl AdminAuthRequired)
      else
        let sought = (\<lambda>x. order_id x = orderId) in
        (case find sought (orders d) of
          None \<Rightarrow> (d, Inl OrderNotFound)
        | Some ord \<Rightarrow>
            let upd = (\<lambda>x. x\<lparr>arrivalDate := (if truthy_opt arrival then arrival else None),
                              status := (if truthy_opt arrival then ''scheduled''
                                         else ''processing'')\<rparr>)
            in (d\<lparr>orders := update_first sought upd (orders d)\<rparr>, Inr (upd ord))))"

subsection \<open>\<open>POST /api/admin/takedown-item\<close>\<close>

text \<open>
  The \<open>forEach\<close> over the orders: it carries the item being taken down (whose stock it
  raises) and the counter, and rewrites the orders it cancels in place. On integers
  \<open>Number(x || 0)\<close> is \<open>x\<close>.
\<close>

fun cancel_related :: "string \<Rightarrow> order list \<Rightarrow> item \<Rightarrow> nat \<Rightarrow> order list \<times> item \<times> nat" where
  "cancel_related now [] it n = ([], it, n)"
| "cancel_related now (x # xs) it n =
     (if itemId x = item_id it \<and> status x \<noteq> ''canceled'' then
        (case cancel_related now xs (it\<lparr>stock := stock it + quantity x\<rparr>) (n + 1) of
           (xs', it', n') \<Rightarrow> (x\<lparr>status := ''canceled'', canceledAt := Some now\<rparr> # xs', it', n'))
      else
        (case cancel_related now xs it n of (xs', it', n') \<Rightarrow> (x # xs', it', n')))"

text \<open>The response is \<open>{success: true, canceledOrders: canceledCount}\<close>: the count.\<close>

definition takedownItem ::
  "(string \<Rightarrow> string \<Rightarrow> bool) \<Rightarrow> string \<Rightarrow> data \<Rightarrow> admin_req \<Rightarrow> int \<Rightarrow> data \<times> (error + nat)" where
  "takedownItem compareSync now d cred iid =
     (if \<not> checkAdmin compareSync d cred then (d, Inl AdminAuthRequired)
      else
        let sought = (\<lambda>i. item_id i = iid) in
        (case find sought (items d) of
          None \<Rightarrow> (d, Inl ItemNotFound)
        | Some it \<Rightarrow>
            (case cancel_related now (orders d) (it\<lparr>active := False\<rparr>) 0 of
               (orders', it', canceledCount) \<Rightarrow>
                 (d\<lparr>items := update_first sought (\<lambda>_. it') (items d), orders := orders'\<rparr>,
                  Inr canceledCount))))"

section \<open>Sequences of requests\<close>

text \<open>
  A client can send order and cancellation requests in any order; \<open>run\<close> feeds a list
  of them to the handlers, each working on the document the previous one stored.
\<close>

datatype request = Place order_req | Cancel cancel_req

definition handle ::
  "(string \<Rightarrow> string \<Rightarrow> bool) \<Rightarrow> (nat \<Rightarrow> real) \<Rightarrow> string \<Rightarrow> request \<Rightarrow> data \<Rightarrow> data" where
  "handle compareSync random now r d =
     (case r of
        Place q \<Rightarrow> fst (placeOrder random now d q)
      | Cancel c \<Rightarrow> fst (cancelOrder compareSync now d c))"

definition run ::
  "(string \<Rightarrow> string \<Rightarrow> bool) \<Rightarrow> (nat \<Rightarrow> real) \<Rightarrow> string \<Rightarrow> request list \<Rightarrow> data \<Rightarrow> data" where
  "run compareSync random now rs d = fold (handle compareSync random now) rs d"

text \<open>
  The stock test of the order handler is written for quantities that are not negative.
  \<open>stock_ok\<close> says that no stock and no stored quantity is negative, \<open>quantity_ok\<close>
  that an order request asks for a quantity that is not negative.
\<close>

definition stock_ok :: "data \<Rightarrow> bool" where
  "stock_ok d = ((\<forall>i\<in>set (items d). 0 \<le> stock i) \<and> (\<forall>x\<in>set (orders d). 0 \<le> quantity x))"

definition quantity_ok :: "request \<Rightarrow> bool" where
  "quantity_ok r =
     (case r of
        Place q \<Rightarrow> 0 \<le> (case r_quantity q of None \<Rightarrow> 1 | Some n \<Rightarrow> n)
      | Cancel c \<Rightarrow> True)"

section \<open>Example documents\<close>

text \<open>
  The store of the specification's scenario (one item, ``Widget'', five in stock) with an
  administrator account, and the values used to run the handlers on it.
\<close>

definition widget :: item where
  "widget = \<lparr>item_id = 1, item_name = ''Widget'', stock = 5, active = True\<rparr>"

definition admin_account :: account where
  "admin_account =
     \<lparr>acc_username = ''admin'', fullName = ''Site Admin'', passwordHash = Some ''hash-of-secret''\<rparr>"

definition shop :: data where
  "shop = \<lparr>accounts = [admin_account], items = [widget], orders = []\<rparr>"

definition demo_compare :: "string \<Rightarrow> string \<Rightarrow> bool" where
  "demo_compare password h = (password = ''secret'' \<and> h = ''hash-of-secret'')"

definition admin_cred :: admin_req where
  "admin_cred = \<lparr>a_username = ''admin'', a_password = ''secret''\<rparr>"

definition half :: "nat \<Rightarrow> real" where
  "half i = 1 / 2"

definition mk_order :: "int \<Rightarrow> string \<Rightarrow> int \<Rightarrow> string \<Rightarrow> order" where
  "mk_order n u q st =
     \<lparr>order_id = n, itemId = 1, itemName = ''Widget'', username = u, buyerName = u,
      quantity = q, status = st, arrivalDate = None, createdAt = ''day1'',
      cancelToken = None, canceledAt = None\<rparr>"

section \<open>Auxiliary facts\<close>

lemma find_Some_P: "find P xs = Some x \<Longrightarrow> P x"
  by (induction xs) (auto split: if_splits)

lemma find_Some_mem: "find P xs = Some x \<Longrightarrow> x \<in> set xs"
  by (induction xs) (auto split: if_splits)

lemma find_snoc:
  "find P (xs @ [y]) =
     (case find P xs of Some x \<Rightarrow> Some x | None \<Rightarrow> if P y then Some y else None)"
  by (induction xs) auto

lemma update_first_snoc:
  "find P xs = None \<Longrightarrow> P y \<Longrightarrow> update_first P f (xs @ [y]) = xs @ [f y]"
  by (induction xs) (auto split: if_splits)

lemma find_update_first:
  "find P xs = Some x \<Longrightarrow> P (f x) \<Longrightarrow> find P (update_first P f xs) = Some (f x)"
  by (induction xs) (auto split: if_splits)

lemma toLowerCase_guest: "toLowerCase ''guest'' = ''guest''"
  by (simp add: toLowerCase_def lower_char_def)

lemma toLowerCase_bob: "toLowerCase ''bob'' = ''bob''"
  by (simp add: toLowerCase_def lower_char_def)

lemma toLowerCase_admin: "toLowerCase ''admin'' = ''admin''"
  by (simp add: toLowerCase_def lower_char_def)

subsection \<open>Fresh identifiers\<close>

lemma fold_max_ge: "(x::int) \<in> set (y # ys) \<Longrightarrow> x \<le> fold max ys y"
proof -
  assume "x \<in> set (y # ys)"
  then have "x \<le> Max (set (y # ys))" by (intro Max_ge) simp_all
  then show ?thesis by (simp only: Max.set_eq_fold)
qed

lemma nextId_fresh: "x \<in> set ids \<Longrightarrow> x < nextId ids"
  using fold_max_ge[of x] by (cases ids) (auto simp: nextId_def intro: le_less_trans)

lemma nextId_pos: "\<forall>x\<in>set ids. 0 < x \<Longrightarrow> 0 < nextId ids"
  using nextId_fresh[of "hd ids" ids] by (cases ids) (auto simp: nextId_def)

lemma find_nextId: "find (\<lambda>x. order_id x = nextId (map order_id xs)) xs = None"
proof -
  have "order_id x \<noteq> nextId (map order_id xs)" if "x \<in> set xs" for x
    using nextId_fresh[of "order_id x" "map order_id xs"] that by auto
  then show ?thesis by (simp add: find_None_iff)
qed

subsection \<open>Reserving and restoring stock\<close>

lemma reserve_restore:
  assumes "distinct (map item_id xs)"
      and "find (\<lambda>i. item_id i = iid \<and> active i) xs = Some it"
  shows "update_first (\<lambda>i. item_id i = item_id it) (\<lambda>i. i\<lparr>stock := stock i + q\<rparr>)
           (update_first (\<lambda>i. item_id i = iid \<and> active i) (\<lambda>i. i\<lparr>stock := stock i - q\<rparr>) xs)
         = xs"
  using assms
proof (induction xs)
  case Nil
  then show ?case by simp
next
  case (Cons x xs)
  show ?case
  proof (cases "item_id x = iid \<and> active x")
    case True
    with Cons.prems have "it = x" by simp
    with True show ?thesis by simp
  next
    case False
    with Cons.prems have f: "find (\<lambda>i. item_id i = iid \<and> active i) xs = Some it" by simp
    then have "it \<in> set xs" by (rule find_Some_mem)
    with Cons.prems(1) have "item_id x \<noteq> item_id it" by auto
    with False Cons.IH f Cons.prems(1) show ?thesis by auto
  qed
qed

lemma reserve_stock:
  assumes "find (\<lambda>i. item_id i = iid \<and> active i) xs = Some it"
  shows "find (\<lambda>i. item_id i = iid \<and> active i)
           (update_first (\<lambda>i. item_id i = iid \<and> active i) (\<lambda>i. i\<lparr>stock := stock i - q\<rparr>) xs)
         = Some (it\<lparr>stock := stock it - q\<rparr>)"
  using assms by (induction xs) (auto split: if_splits)

subsection \<open>The cancel token\<close>

lemma alphabet_props: "length alphabet = 36" "distinct alphabet"
  by (simp_all add: alphabet_def)

lemma token_length: "length (generateCancelToken random) = 24"
  by (simp add: generateCancelToken_def)

lemma token_chars:
  assumes "\<forall>i<24. 0 \<le> random i \<and> random i < 1"
  shows "set (generateCancelToken random) \<subseteq> set alphabet"
proof -
  have "alphabet ! nat \<lfloor>random i * 36\<rfloor> \<in> set alphabet" if "i < 24" for i
  proof -
    from that assms have r: "0 \<le> random i" "random i < 1" by auto
    from r have "random i * 36 < 36" by simp
    then have "\<lfloor>random i * 36\<rfloor> < 36" by (simp add: floor_less_iff)
    then have "nat \<lfloor>random i * 36\<rfloor> < 36" by linarith
    then have "nat \<lfloor>random i * 36\<rfloor> < length alphabet"
      by (simp only: alphabet_props)
    then show ?thesis by (rule nth_mem)
  qed
  then show ?thesis by (auto simp: generateCancelToken_def)
qed

subsection \<open>The takedown loop\<close>

lemma cancel_related_eq:
  "cancel_related now xs it n =
     (map (\<lambda>x. if itemId x = item_id it \<and> status x \<noteq> ''canceled''
               then x\<lparr>status := ''canceled'', canceledAt := Some now\<rparr> else x) xs,
      it\<lparr>stock := stock it + sum_list (map quantity
             (filter (\<lambda>x. itemId x = item_id it \<and> status x \<noteq> ''canceled'') xs))\<rparr>,
      n + length (filter (\<lambda>x. itemId x = item_id it \<and> status x \<noteq> ''canceled'') xs))"
proof (induction xs arbitrary: it n)
  case Nil
  show ?case by simp
next
  case (Cons x xs)
  show ?case
    by (simp add: Cons.IH add.assoc)
qed

subsection \<open>Rejections of the order handler\<close>


subsection \<open>Accepted requests\<close>

lemma placeOrder_accepted:
  assumes "r_itemId req = Some iid" and "iid \<noteq> 0"
      and "find (\<lambda>i. item_id i = iid \<and> active i) (items d) = Some it"
      and "\<not> stock it < (case r_quantity req of None \<Rightarrow> 1 | Some q \<Rightarrow> q)"
      and "buyer_name d (case r_username req of None \<Rightarrow> ''guest'' | Some u \<Rightarrow> u)
             (r_buyerFullName req) = Inr b"
  shows "placeOrder random now d req =
     (d\<lparr>items := update_first (\<lambda>i. item_id i = iid \<and> active i)
                   (\<lambda>i. i\<lparr>stock := stock i - (case r_quantity req of None \<Rightarrow> 1 | Some q \<Rightarrow> q)\<rparr>)
                   (items d),
         orders := orders d @
           [new_order random now d it (case r_username req of None \<Rightarrow> ''guest'' | Some u \<Rightarrow> u) b
              (case r_quantity req of None \<Rightarrow> 1 | Some q \<Rightarrow> q)]\<rparr>,
      Inr (new_order random now d it (case r_username req of None \<Rightarrow> ''guest'' | Some u \<Rightarrow> u) b
             (case r_quantity req of None \<Rightarrow> 1 | Some q \<Rightarrow> q)))"
  using assms by (simp add: placeOrder_def Let_def)

lemma cancelOrder_accepted:
  assumes "c_orderId creq = Some oid" and "oid \<noteq> 0"
      and "find (\<lambda>x. order_id x = oid) (orders d) = Some ord"
      and "status ord \<noteq> ''canceled''"
      and "authorized compareSync d creq ord"
  shows "cancelOrder compareSync now d creq =
     (d\<lparr>items := update_first (\<lambda>i. item_id i = itemId ord)
                   (\<lambda>i. i\<lparr>stock := stock i + quantity ord\<rparr>) (items d),
         orders := update_first (\<lambda>x. order_id x = oid)
                   (\<lambda>x. x\<lparr>status := ''canceled'', canceledAt := Some now\<rparr>) (orders d)\<rparr>,
      Inr (ord\<lparr>status := ''canceled'', canceledAt := Some now\<rparr>))"
  using assms by (simp add: cancelOrder_def Let_def)

lemma new_order_fields:
  "order_id (new_order random now d it u b q) = nextId (map order_id (orders d))"
  "itemId (new_order random now d it u b q) = item_id it"
  "quantity (new_order random now d it u b q) = q"
  "status (new_order random now d it u b q) = ''processing''"
  "buyerName (new_order random now d it u b q) = b"
  by (simp_all add: new_order_def Let_def)

lemma new_order_found:
  "find (\<lambda>x. order_id x = order_id (new_order random now d it u b q))
        (orders d @ [new_order random now d it u b q])
   = Some (new_order random now d it u b q)"
  by (simp add: find_snoc new_order_fields(1) find_nextId)

lemma owner_authorized:
  assumes "non_guest (username ord)" and "c_username creq = username ord"
  shows "authorized compareSync d creq ord"
  using assms by (simp add: authorized_def non_guest_def)

subsection \<open>Stock under quantities that are not negative\<close>

lemma set_update_first:
  "x \<in> set (update_first P f xs) \<Longrightarrow> x \<in> set xs \<or> (\<exists>y. find P xs = Some y \<and> x = f y)"
  by (induction xs) (auto split: if_splits)

lemma placeOrder_store:
  "fst (placeOrder random now d req) = d \<or>
   (\<exists>iid it b. find (\<lambda>i. item_id i = iid \<and> active i) (items d) = Some it
      \<and> \<not> stock it < (case r_quantity req of None \<Rightarrow> 1 | Some q \<Rightarrow> q)
      \<and> fst (placeOrder random now d req) =
          d\<lparr>items := update_first (\<lambda>i. item_id i = iid \<and> active i)
                (\<lambda>i. i\<lparr>stock := stock i - (case r_quantity req of None \<Rightarrow> 1 | Some q \<Rightarrow> q)\<rparr>)
                (items d),
            orders := orders d @
              [new_order random now d it (case r_username req of None \<Rightarrow> ''guest'' | Some u \<Rightarrow> u)
                 b (case r_quantity req of None \<Rightarrow> 1 | Some q \<Rightarrow> q)]\<rparr>)"
  by (simp add: placeOrder_def Let_def split: option.split sum.split) blast

lemma cancelOrder_store:
  "fst (cancelOrder compareSync now d creq) = d \<or>
   (\<exists>oid ord. find (\<lambda>x. order_id x = oid) (orders d) = Some ord
      \<and> fst (cancelOrder compareSync now d creq) =
          d\<lparr>items := update_first (\<lambda>i. item_id i = itemId ord)
                (\<lambda>i. i\<lparr>stock := stock i + quantity ord\<rparr>) (items d),
            orders := update_first (\<lambda>x. order_id x = oid)
                (\<lambda>x. x\<lparr>status := ''canceled'', canceledAt := Some now\<rparr>) (orders d)\<rparr>)"
  by (simp add: cancelOrder_def Let_def split: option.split) blast

lemma stock_ok_place:
  assumes ok: "stock_ok d" and q: "0 \<le> (case r_quantity req of None \<Rightarrow> 1 | Some q \<Rightarrow> q)"
  shows "stock_ok (fst (placeOrder random now d req))"
  using placeOrder_store [of random now d req]
proof (elim disjE exE conjE)
  assume "fst (placeOrder random now d req) = d"
  with ok show ?thesis by simp
next
  fix iid it b
  let ?q = "case r_quantity req of None \<Rightarrow> 1 | Some q \<Rightarrow> q"
  assume found: "find (\<lambda>i. item_id i = iid \<and> active i) (items d) = Some it"
    and enough: "\<not> stock it < ?q"
    and res: "fst (placeOrder random now d req) =
          d\<lparr>items := update_first (\<lambda>i. item_id i = iid \<and> active i)
                (\<lambda>i. i\<lparr>stock := stock i - ?q\<rparr>) (items d),
            orders := orders d @
              [new_order random now d it (case r_username req of None \<Rightarrow> ''guest'' | Some u \<Rightarrow> u)
                 b ?q]\<rparr>"
  have "0 \<le> stock x"
    if "x \<in> set (update_first (\<lambda>i. item_id i = iid \<and> active i)
                (\<lambda>i. i\<lparr>stock := stock i - ?q\<rparr>) (items d))" for x
    using set_update_first [OF that] found enough ok by (auto simp: stock_ok_def)
  with ok q show ?thesis by (auto simp: res stock_ok_def new_order_fields)
qed

lemma stock_ok_cancel:
  assumes ok: "stock_ok d"
  shows "stock_ok (fst (cancelOrder compareSync now d creq))"
  using cancelOrder_store [of compareSync now d creq]
proof (elim disjE exE conjE)
  assume "fst (cancelOrder compareSync now d creq) = d"
  with ok show ?thesis by simp
next
  fix oid ord
  assume found: "find (\<lambda>x. order_id x = oid) (orders d) = Some ord"
    and res: "fst (cancelOrder compareSync now d creq) =
          d\<lparr>items := update_first (\<lambda>i. item_id i = itemId ord)
                (\<lambda>i. i\<lparr>stock := stock i + quantity ord\<rparr>) (items d),
            orders := update_first (\<lambda>x. order_id x = oid)
                (\<lambda>x. x\<lparr>status := ''canceled'', canceledAt := Some now\<rparr>) (orders d)\<rparr>"
  from find_Some_mem [OF found] ok have q: "0 \<le> quantity ord" by (simp add: stock_ok_def)
  have i: "0 \<le> stock x"
    if "x \<in> set (update_first (\<lambda>i. item_id i = itemId ord)
                (\<lambda>i. i\<lparr>stock := stock i + quantity ord\<rparr>) (items d))" for x
    using set_update_first [OF that] q ok by (auto simp: stock_ok_def dest: find_Some_mem)
  have o: "0 \<le> quantity x"
    if "x \<in> set (update_first (\<lambda>x. order_id x = oid)
                (\<lambda>x. x\<lparr>status := ''canceled'', canceledAt := Some now\<rparr>) (orders d))" for x
    using set_update_first [OF that] ok by (auto simp: stock_ok_def dest: find_Some_mem)
  from i o show ?thesis by (simp add: res stock_ok_def)
qed

lemma stock_ok_run:
  "stock_ok d \<Longrightarrow> \<forall>r\<in>set rs. quantity_ok r \<Longrightarrow> stock_ok (run compareSync random now rs d)"
proof (induction rs arbitrary: d)
  case Nil
  then show ?case by (simp add: run_def)
next
  case (Cons r rs)
  from Cons.prems have "stock_ok (handle compareSync random now r d)"
    by (cases r) (simp_all add: handle_def quantity_ok_def stock_ok_place stock_ok_cancel)
  with Cons.IH [of "handle compareSync random now r d"] Cons.prems(2)
  show ?case by (simp add: run_def)
qed

section \<open>Properties of the order handler\<close>

text \<open>
  C9. For an active item and a requested quantity greater than the item's stock, the
  order handler answers ``Not enough stock'' and stores the document it loaded: the stock
  is unchanged and no order is created. The item is addressed by the request's
  \<open>itemId\<close>, which the handler accepts only when it is not zero.
\<close>

theorem C9_insufficient_stock:
  assumes "r_itemId req = Some iid" and "iid \<noteq> 0"
      and "find (\<lambda>i. item_id i = iid \<and> active i) (items d) = Some it"
      and "stock it < (case r_quantity req of None \<Rightarrow> 1 | Some q \<Rightarrow> q)"
  shows "placeOrder random now d req = (d, Inl NotEnoughStock)"
  using assms by (simp add: placeOrder_def Let_def)

theorem C9_insufficient_stock_witness:
  "find (\<lambda>i. item_id i = 1 \<and> active i) (items shop) = Some widget
   \<and> stock widget < 6
   \<and> placeOrder half ''day2'' shop
        \<lparr>r_username = None, r_buyerFullName = Some ''Ann Lee'', r_itemId = Some 1,
         r_quantity = Some 6\<rparr> = (shop, Inl NotEnoughStock)"
  using C9_insufficient_stock [of "\<lparr>r_username = None, r_buyerFullName = Some ''Ann Lee'',
      r_itemId = Some 1, r_quantity = Some 6\<rparr>" 1 shop widget half "''day2''"]
  by (simp add: shop_def widget_def)




text \<open>
  C7. An order created by the order handler carries a cancel token exactly when its
  \<open>username\<close> is \<open>guest\<close>. The token has 24 characters, each taken from the alphabet of
  36 distinct symbols, given that every value of \<open>Math.random\<close> lies in \<open>[0, 1)\<close>.
\<close>

theorem C7_cancel_token:
  assumes "placeOrder random now d req = (d', Inr ord)"
      and "\<forall>i<24. 0 \<le> random i \<and> random i < 1"
  shows "(cancelToken ord \<noteq> None \<longleftrightarrow> username ord = ''guest'')
       \<and> (\<forall>t. cancelToken ord = Some t \<longrightarrow> length t = 24 \<and> set t \<subseteq> set alphabet)
       \<and> length alphabet = 36 \<and> distinct alphabet"
proof -
  from assms(1) have "cancelToken ord \<noteq> None \<longleftrightarrow> username ord = ''guest''"
    and "\<forall>t. cancelToken ord = Some t \<longrightarrow> t = generateCancelToken random"
    by (auto simp: placeOrder_def new_order_def Let_def toLowerCase_guest non_guest_def
             truthy_str_def split: option.splits if_splits sum.splits)
  with token_length token_chars[OF assms(2)] alphabet_props show ?thesis by auto
qed

theorem C7_cancel_token_witness:
  "username (projr (snd (placeOrder half ''day2'' shop
      \<lparr>r_username = None, r_buyerFullName = Some ''Ann Lee'', r_itemId = Some 1,
       r_quantity = Some 2\<rparr>))) = ''guest''
   \<and> cancelToken (projr (snd (placeOrder half ''day2'' shop
      \<lparr>r_username = None, r_buyerFullName = Some ''Ann Lee'', r_itemId = Some 1,
       r_quantity = Some 2\<rparr>))) = Some (replicate 24 CHR ''s'')
   \<and> set (replicate 24 CHR ''s'') \<subseteq> set alphabet"
proof -
  let ?req = "\<lparr>r_username = None, r_buyerFullName = Some ''Ann Lee'', r_itemId = Some 1,
       r_quantity = Some 2\<rparr>"
  let ?ord = "\<lparr>order_id = 1, itemId = 1, itemName = ''Widget'', username = ''guest'',
       buyerName = ''Ann Lee'', quantity = 2, status = ''processing'', arrivalDate = None,
       createdAt = ''day2'', cancelToken = Some (replicate 24 CHR ''s''), canceledAt = None\<rparr>"
  have tok: "generateCancelToken half = replicate 24 CHR ''s''"
    by (simp add: generateCancelToken_def half_def alphabet_def upt_rec numeral_eq_Suc)
  have placed: "placeOrder half ''day2'' shop ?req
      = (shop\<lparr>items := [widget\<lparr>stock := 3\<rparr>], orders := [?ord]\<rparr>, Inr ?ord)"
    by (simp add: placeOrder_def shop_def widget_def buyer_name_def non_guest_def
          truthy_str_def toLowerCase_guest trim_def is_space_def nextId_def tok Let_def
          new_order_def)
  have range: "\<forall>i<24. 0 \<le> half i \<and> half i < 1" by (simp add: half_def)
  from C7_cancel_token [OF placed range] placed show ?thesis by simp
qed

section \<open>Properties of cancellation\<close>

text \<open>
  C6. A cancel request for an order whose status is already \<open>canceled\<close> is answered
  ``Order already canceled'' and the stored document is the one loaded: nothing is
  restored a second time. The order is the one the handler finds under the request's
  \<open>orderId\<close>.
\<close>

theorem C6_already_canceled:
  assumes "c_orderId creq = Some oid" and "oid \<noteq> 0"
      and "find (\<lambda>x. order_id x = oid) (orders d) = Some ord"
      and "status ord = ''canceled''"
  shows "cancelOrder compareSync now d creq = (d, Inl OrderAlreadyCanceled)"
  using assms by (simp add: cancelOrder_def Let_def)

theorem C6_already_canceled_witness:
  "status (mk_order 1 ''bob'' 2 ''canceled'') = ''canceled''
   \<and> cancelOrder demo_compare ''day3''
        (shop\<lparr>orders := [mk_order 1 ''bob'' 2 ''canceled'']\<rparr>)
        \<lparr>c_orderId = Some 1, c_username = ''bob'', c_password = [], c_cancelToken = None\<rparr>
      = (shop\<lparr>orders := [mk_order 1 ''bob'' 2 ''canceled'']\<rparr>, Inl OrderAlreadyCanceled)"
  using C6_already_canceled [of "\<lparr>c_orderId = Some 1, c_username = ''bob'', c_password = [],
      c_cancelToken = None\<rparr>" 1 "shop\<lparr>orders := [mk_order 1 ''bob'' 2 ''canceled'']\<rparr>"
      "mk_order 1 ''bob'' 2 ''canceled''" demo_compare "''day3''"]
  by (simp add: mk_order_def)

text \<open>
  C8. For an order that exists and is not canceled, a cancel request is answered
  ``Not authorized'', and the stored document is the one loaded, when the supplied
  token differs from the order's token, the credentials fail the administrator check,
  and the supplied user name is not that of a non-guest owner of the order (compared
  without regard to case).
\<close>

theorem C8_not_authorized:
  assumes "c_orderId creq = Some oid" and "oid \<noteq> 0"
      and "find (\<lambda>x. order_id x = oid) (orders d) = Some ord"
      and "status ord \<noteq> ''canceled''"
      and "c_cancelToken creq \<noteq> cancelToken ord"
      and "\<not> checkAdminCredentials compareSync d (c_username creq) (c_password creq)"
      and "\<not> (non_guest (username ord)
              \<and> toLowerCase (c_username creq) = toLowerCase (username ord))"
  shows "cancelOrder compareSync now d creq = (d, Inl NotAuthorized)"
  using assms by (auto simp: cancelOrder_def Let_def authorized_def non_guest_def)

theorem C8_not_authorized_witness:
  "cancelOrder demo_compare ''day3''
     (shop\<lparr>orders := [(mk_order 1 ''guest'' 2 ''processing'')\<lparr>cancelToken := Some ''abc123''\<rparr>]\<rparr>)
     \<lparr>c_orderId = Some 1, c_username = ''admin'', c_password = ''guess'',
      c_cancelToken = Some ''zzz999''\<rparr>
   = (shop\<lparr>orders := [(mk_order 1 ''guest'' 2 ''processing'')\<lparr>cancelToken := Some ''abc123''\<rparr>]\<rparr>,
      Inl NotAuthorized)"
  using C8_not_authorized [of "\<lparr>c_orderId = Some 1, c_username = ''admin'',
      c_password = ''guess'', c_cancelToken = Some ''zzz999''\<rparr>" 1
      "shop\<lparr>orders := [(mk_order 1 ''guest'' 2 ''processing'')\<lparr>cancelToken := Some ''abc123''\<rparr>]\<rparr>"
      "(mk_order 1 ''guest'' 2 ''processing'')\<lparr>cancelToken := Some ''abc123''\<rparr>"
      demo_compare "''day3''"]
  by (simp add: mk_order_def shop_def admin_account_def checkAdminCredentials_def
        truthy_str_def toLowerCase_admin toLowerCase_guest demo_compare_def non_guest_def)

text \<open>
  C3. In a store whose item ids are distinct and whose order ids are positive, take an
  active item and a positive quantity that does not exceed its stock. A request for it
  that names a buyer is accepted and lowers the stock by the quantity; a cancel request
  for the new order that passes the authorization is accepted too, marks the order
  canceled, and leaves the item array exactly as it was before the order, so the stock
  is back at its earlier value.
\<close>

theorem C3_place_then_cancel:
  assumes uniq: "distinct (map item_id (items d))"
      and ids: "\<forall>x\<in>set (orders d). 0 < order_id x"
      and item: "r_itemId req = Some iid" "iid \<noteq> 0"
                "find (\<lambda>i. item_id i = iid \<and> active i) (items d) = Some it"
      and qty: "r_quantity req = Some q" "0 < q" "q \<le> stock it"
      and buyer: "buyer_name d (case r_username req of None \<Rightarrow> ''guest'' | Some u \<Rightarrow> u)
                    (r_buyerFullName req) = Inr b"
  shows "\<exists>d' ord. placeOrder random now d req = (d', Inr ord)
           \<and> find (\<lambda>i. item_id i = iid \<and> active i) (items d') = Some (it\<lparr>stock := stock it - q\<rparr>)
           \<and> (\<forall>creq. c_orderId creq = Some (order_id ord) \<longrightarrow> authorized compareSync d' creq ord
                \<longrightarrow> (\<exists>d'' ord'. cancelOrder compareSync now' d' creq = (d'', Inr ord')
                       \<and> status ord' = ''canceled'' \<and> items d'' = items d))"
proof -
  let ?u = "case r_username req of None \<Rightarrow> ''guest'' | Some u \<Rightarrow> u"
  let ?ord = "new_order random now d it ?u b q"
  let ?d' = "d\<lparr>items := update_first (\<lambda>i. item_id i = iid \<and> active i)
                   (\<lambda>i. i\<lparr>stock := stock i - q\<rparr>) (items d),
               orders := orders d @ [?ord]\<rparr>"
  from qty have enough: "\<not> stock it < (case r_quantity req of None \<Rightarrow> 1 | Some q \<Rightarrow> q)"
    by simp
  from placeOrder_accepted [OF item enough buyer, of random now] qty(1)
  have placed: "placeOrder random now d req = (?d', Inr ?ord)" by simp
  have reserved: "find (\<lambda>i. item_id i = iid \<and> active i) (items ?d')
                  = Some (it\<lparr>stock := stock it - q\<rparr>)"
    using reserve_stock [OF item(3)] by simp
  have canceled: "\<exists>d'' ord'. cancelOrder compareSync now' ?d' creq = (d'', Inr ord')
                       \<and> status ord' = ''canceled'' \<and> items d'' = items d"
    if oid: "c_orderId creq = Some (order_id ?ord)" and auth: "authorized compareSync ?d' creq ?ord"
    for creq
  proof -
    from ids have "0 < nextId (map order_id (orders d))" by (intro nextId_pos) simp
    then have nz: "order_id ?ord \<noteq> 0" by (simp add: new_order_fields)
    have found: "find (\<lambda>x. order_id x = order_id ?ord) (orders ?d') = Some ?ord"
      using new_order_found by simp
    have live: "status ?ord \<noteq> ''canceled''" by (simp add: new_order_fields)
    from find_Some_P [OF item(3)] have "item_id it = iid" by simp
    with reserve_restore [OF uniq item(3), of q]
    have restored: "update_first (\<lambda>i. item_id i = itemId ?ord)
                  (\<lambda>i. i\<lparr>stock := stock i + quantity ?ord\<rparr>) (items ?d') = items d"
      by (simp add: new_order_fields)
    from cancelOrder_accepted [OF oid nz found live auth, of now'] restored
    show ?thesis by simp
  qed
  from placed reserved canceled show ?thesis by blast
qed

theorem C3_place_then_cancel_witness:
  "items (fst (cancelOrder demo_compare ''day3''
       (fst (placeOrder half ''day2'' shop
          \<lparr>r_username = None, r_buyerFullName = Some ''Ann Lee'', r_itemId = Some 1,
           r_quantity = Some 2\<rparr>))
       \<lparr>c_orderId = Some 1, c_username = [], c_password = [],
        c_cancelToken = Some (replicate 24 CHR ''s'')\<rparr>)) = items shop
   \<and> map stock (items (fst (placeOrder half ''day2'' shop
          \<lparr>r_username = None, r_buyerFullName = Some ''Ann Lee'', r_itemId = Some 1,
           r_quantity = Some 2\<rparr>))) = [3]"
proof -
  let ?req = "\<lparr>r_username = None, r_buyerFullName = Some ''Ann Lee'', r_itemId = Some 1,
       r_quantity = Some 2\<rparr>"
  let ?creq = "\<lparr>c_orderId = Some 1, c_username = [], c_password = [],
        c_cancelToken = Some (replicate 24 CHR ''s'')\<rparr>"
  let ?ord = "\<lparr>order_id = 1, itemId = 1, itemName = ''Widget'', username = ''guest'',
       buyerName = ''Ann Lee'', quantity = 2, status = ''processing'', arrivalDate = None,
       createdAt = ''day2'', cancelToken = Some (replicate 24 CHR ''s''), canceledAt = None\<rparr>"
  have tok: "generateCancelToken half = replicate 24 CHR ''s''"
    by (simp add: generateCancelToken_def half_def alphabet_def upt_rec numeral_eq_Suc)
  have placed: "placeOrder half ''day2'' shop ?req
      = (shop\<lparr>items := [widget\<lparr>stock := 3\<rparr>], orders := [?ord]\<rparr>, Inr ?ord)"
    by (simp add: placeOrder_def shop_def widget_def buyer_name_def non_guest_def
          truthy_str_def toLowerCase_guest trim_def is_space_def nextId_def tok Let_def
          new_order_def)
  have h1: "distinct (map item_id (items shop))" by (simp add: shop_def)
  have h2: "\<forall>x\<in>set (orders shop). 0 < order_id x" by (simp add: shop_def)
  have h3: "r_itemId ?req = Some 1" by simp
  have h4: "(1::int) \<noteq> 0" by simp
  have h5: "find (\<lambda>i. item_id i = 1 \<and> active i) (items shop) = Some widget"
    by (simp add: shop_def widget_def)
  have h6: "r_quantity ?req = Some 2" by simp
  have h7: "(0::int) < 2" by simp
  have h8: "2 \<le> stock widget" by (simp add: widget_def)
  have h9: "buyer_name shop (case r_username ?req of None \<Rightarrow> ''guest'' | Some u \<Rightarrow> u)
              (r_buyerFullName ?req) = Inr ''Ann Lee''"
    by (simp add: buyer_name_def non_guest_def toLowerCase_guest trim_def is_space_def)
  from C3_place_then_cancel [OF h1 h2 h3 h4 h5 h6 h7 h8 h9, of half "''day2''" demo_compare "''day3''"]
  obtain d' ord where p: "placeOrder half ''day2'' shop ?req = (d', Inr ord)"
    and c: "\<And>creq. c_orderId creq = Some (order_id ord) \<Longrightarrow> authorized demo_compare d' creq ord
              \<Longrightarrow> \<exists>d'' ord'. cancelOrder demo_compare ''day3'' d' creq = (d'', Inr ord')
                     \<and> status ord' = ''canceled'' \<and> items d'' = items shop"
    by blast
  have "(d', Inr ord :: error + order) = (shop\<lparr>items := [widget\<lparr>stock := 3\<rparr>], orders := [?ord]\<rparr>, Inr ?ord)"
    by (rule trans [OF p [symmetric] placed])
  then have eq: "d' = shop\<lparr>items := [widget\<lparr>stock := 3\<rparr>], orders := [?ord]\<rparr>"
    "ord = ?ord" by (simp_all only: prod.inject sum.inject)
  have "authorized demo_compare d' ?creq ord"
    by (simp add: eq authorized_def truthy_str_def truthy_opt_def)
  with c [of ?creq] eq(2)
  have restored: "items (fst (cancelOrder demo_compare ''day3'' d' ?creq)) = items shop"
    by auto
  have reserved: "map stock (items d') = [3]" by (simp add: eq(1))
  have "fst (placeOrder half ''day2'' shop ?req) = d'" by (simp only: p fst_conv)
  with restored reserved show ?thesis by (simp only: simp_thms)
qed

text \<open>
  C10. A request with a user name that is not the guest's and that matches no account
  is accepted all the same (for an active item with enough stock). The order takes the
  supplied string as \<open>username\<close> and as \<open>buyerName\<close> and has no cancel token. It is then
  found under its id with the status \<open>processing\<close>; and in that store as in any later
  one, as long as the order found under that id has this user name and is not canceled,
  a cancel request that supplies the same user name is carried out whatever password
  and token come with it: the answer is the order with the status \<open>canceled\<close>, and the
  document stored is the one loaded with that order marked canceled (it is then found
  canceled under its id) and with the order's quantity added to the stock of the first
  item that has the order's item id.
\<close>

theorem C10_unknown_username:
  assumes user: "r_username req = Some u" "non_guest u"
      and unknown: "find (\<lambda>a. toLowerCase (acc_username a) = toLowerCase u) (accounts d) = None"
      and item: "r_itemId req = Some iid" "iid \<noteq> 0"
                "find (\<lambda>i. item_id i = iid \<and> active i) (items d) = Some it"
      and enough: "\<not> stock it < (case r_quantity req of None \<Rightarrow> 1 | Some q \<Rightarrow> q)"
      and ids: "\<forall>x\<in>set (orders d). 0 < order_id x"
  shows "\<exists>d' ord. placeOrder random now d req = (d', Inr ord)
           \<and> username ord = u \<and> buyerName ord = u \<and> cancelToken ord = None
           \<and> find (\<lambda>x. order_id x = order_id ord) (orders d') = Some ord
           \<and> status ord = ''processing''
           \<and> (\<forall>dl x creq. c_orderId creq = Some (order_id ord) \<longrightarrow> c_username creq = u
                \<longrightarrow> find (\<lambda>y. order_id y = order_id ord) (orders dl) = Some x
                \<longrightarrow> username x = u \<longrightarrow> status x \<noteq> ''canceled''
                \<longrightarrow> cancelOrder compareSync now' dl creq =
                      (dl\<lparr>items := update_first (\<lambda>i. item_id i = itemId x)
                                      (\<lambda>i. i\<lparr>stock := stock i + quantity x\<rparr>) (items dl),
                          orders := update_first (\<lambda>y. order_id y = order_id ord)
                                      (\<lambda>y. y\<lparr>status := ''canceled'', canceledAt := Some now'\<rparr>)
                                      (orders dl)\<rparr>,
                       Inr (x\<lparr>status := ''canceled'', canceledAt := Some now'\<rparr>))
                    \<and> find (\<lambda>y. order_id y = order_id ord)
                          (orders (fst (cancelOrder compareSync now' dl creq)))
                        = Some (x\<lparr>status := ''canceled'', canceledAt := Some now'\<rparr>))"
proof -
  let ?q = "case r_quantity req of None \<Rightarrow> 1 | Some q \<Rightarrow> q"
  let ?ord = "new_order random now d it u u ?q"
  from user unknown
  have buyer: "buyer_name d (case r_username req of None \<Rightarrow> ''guest'' | Some u \<Rightarrow> u)
                 (r_buyerFullName req) = Inr u"
    by (simp add: buyer_name_def)
  from placeOrder_accepted [OF item enough buyer, of random now] user(1)
  have placed: "placeOrder random now d req =
      (d\<lparr>items := update_first (\<lambda>i. item_id i = iid \<and> active i)
                    (\<lambda>i. i\<lparr>stock := stock i - ?q\<rparr>) (items d),
          orders := orders d @ [?ord]\<rparr>, Inr ?ord)"
    by simp
  from user(2) have fields: "username ?ord = u" "buyerName ?ord = u" "cancelToken ?ord = None"
    by (simp_all add: new_order_def Let_def non_guest_def)
  have found: "find (\<lambda>x. order_id x = order_id ?ord) (orders d @ [?ord]) = Some ?ord"
    by (rule new_order_found)
  from ids have "0 < nextId (map order_id (orders d))" by (intro nextId_pos) simp
  then have nz: "order_id ?ord \<noteq> 0" by (simp add: new_order_fields)
  have later: "cancelOrder compareSync now' dl creq =
                 (dl\<lparr>items := update_first (\<lambda>i. item_id i = itemId x)
                                 (\<lambda>i. i\<lparr>stock := stock i + quantity x\<rparr>) (items dl),
                     orders := update_first (\<lambda>y. order_id y = order_id ?ord)
                                 (\<lambda>y. y\<lparr>status := ''canceled'', canceledAt := Some now'\<rparr>)
                                 (orders dl)\<rparr>,
                  Inr (x\<lparr>status := ''canceled'', canceledAt := Some now'\<rparr>))
               \<and> find (\<lambda>y. order_id y = order_id ?ord)
                     (orders (fst (cancelOrder compareSync now' dl creq)))
                   = Some (x\<lparr>status := ''canceled'', canceledAt := Some now'\<rparr>)"
    if "c_orderId creq = Some (order_id ?ord)" and "c_username creq = u"
      and "find (\<lambda>y. order_id y = order_id ?ord) (orders dl) = Some x"
      and "username x = u" and "status x \<noteq> ''canceled''"
    for dl x creq
  proof -
    from user(2) that(2,4) have "authorized compareSync dl creq x"
      by (intro owner_authorized) simp_all
    from cancelOrder_accepted [OF that(1) nz that(3) that(5) this, of now']
    have outcome: "cancelOrder compareSync now' dl creq =
                 (dl\<lparr>items := update_first (\<lambda>i. item_id i = itemId x)
                                 (\<lambda>i. i\<lparr>stock := stock i + quantity x\<rparr>) (items dl),
                     orders := update_first (\<lambda>y. order_id y = order_id ?ord)
                                 (\<lambda>y. y\<lparr>status := ''canceled'', canceledAt := Some now'\<rparr>)
                                 (orders dl)\<rparr>,
                  Inr (x\<lparr>status := ''canceled'', canceledAt := Some now'\<rparr>))" .
    from find_Some_P [OF that(3)] have "order_id x = order_id ?ord" .
    then have "find (\<lambda>y. order_id y = order_id ?ord)
                 (update_first (\<lambda>y. order_id y = order_id ?ord)
                    (\<lambda>y. y\<lparr>status := ''canceled'', canceledAt := Some now'\<rparr>) (orders dl))
               = Some (x\<lparr>status := ''canceled'', canceledAt := Some now'\<rparr>)"
      by (intro find_update_first [OF that(3)]) simp
    with outcome show ?thesis by simp
  qed
  let ?d' = "d\<lparr>items := update_first (\<lambda>i. item_id i = iid \<and> active i)
                    (\<lambda>i. i\<lparr>stock := stock i - ?q\<rparr>) (items d),
               orders := orders d @ [?ord]\<rparr>"
  from found have stored: "find (\<lambda>x. order_id x = order_id ?ord) (orders ?d') = Some ?ord"
    by simp
  have fresh: "status ?ord = ''processing''" by (simp add: new_order_fields)
  show ?thesis
  proof (intro exI conjI allI impI)
    show "placeOrder random now d req = (?d', Inr ?ord)" by (rule placed)
    show "username ?ord = u" "buyerName ?ord = u" "cancelToken ?ord = None" by (rule fields)+
    show "find (\<lambda>x. order_id x = order_id ?ord) (orders ?d') = Some ?ord" by (rule stored)
    show "status ?ord = ''processing''" by (rule fresh)
  next
    fix dl :: data and x :: order and creq :: cancel_req
    assume a: "c_orderId creq = Some (order_id ?ord)" "c_username creq = u"
      "find (\<lambda>y. order_id y = order_id ?ord) (orders dl) = Some x"
      "username x = u" "status x \<noteq> ''canceled''"
    from later [OF a]
    show "cancelOrder compareSync now' dl creq =
            (dl\<lparr>items := update_first (\<lambda>i. item_id i = itemId x)
                            (\<lambda>i. i\<lparr>stock := stock i + quantity x\<rparr>) (items dl),
                orders := update_first (\<lambda>y. order_id y = order_id ?ord)
                            (\<lambda>y. y\<lparr>status := ''canceled'', canceledAt := Some now'\<rparr>)
                            (orders dl)\<rparr>,
             Inr (x\<lparr>status := ''canceled'', canceledAt := Some now'\<rparr>))"
      and "find (\<lambda>y. order_id y = order_id ?ord)
             (orders (fst (cancelOrder compareSync now' dl creq)))
           = Some (x\<lparr>status := ''canceled'', canceledAt := Some now'\<rparr>)"
      by blast+
  qed
qed

theorem C10_unknown_username_witness:
  "placeOrder half ''day2'' shop
     \<lparr>r_username = Some ''bob'', r_buyerFullName = None, r_itemId = Some 1,
      r_quantity = Some 2\<rparr>
   = (shop\<lparr>items := [widget\<lparr>stock := 3\<rparr>],
           orders := [(mk_order 1 ''bob'' 2 ''processing'')\<lparr>createdAt := ''day2''\<rparr>]\<rparr>,
      Inr ((mk_order 1 ''bob'' 2 ''processing'')\<lparr>createdAt := ''day2''\<rparr>))
   \<and> cancelOrder demo_compare ''day3''
        (shop\<lparr>items := [widget\<lparr>stock := 3\<rparr>],
              orders := [(mk_order 1 ''bob'' 2 ''processing'')\<lparr>createdAt := ''day2''\<rparr>]\<rparr>)
        \<lparr>c_orderId = Some 1, c_username = ''bob'', c_password = [],
         c_cancelToken = None\<rparr>
   = (shop\<lparr>items := [widget],
           orders := [(mk_order 1 ''bob'' 2 ''canceled'')
                        \<lparr>createdAt := ''day2'', canceledAt := Some ''day3''\<rparr>]\<rparr>,
      Inr ((mk_order 1 ''bob'' 2 ''canceled'')
             \<lparr>createdAt := ''day2'', canceledAt := Some ''day3''\<rparr>))"
proof -
  let ?req = "\<lparr>r_username = Some ''bob'', r_buyerFullName = None, r_itemId = Some 1,
      r_quantity = Some 2\<rparr>"
  let ?creq = "\<lparr>c_orderId = Some 1, c_username = ''bob'', c_password = [],
         c_cancelToken = None\<rparr>"
  let ?ord = "(mk_order 1 ''bob'' 2 ''processing'')\<lparr>createdAt := ''day2''\<rparr>"
  let ?d' = "shop\<lparr>items := [widget\<lparr>stock := 3\<rparr>], orders := [?ord]\<rparr>"
  have placed: "placeOrder half ''day2'' shop ?req = (?d', Inr ?ord)"
    by (simp add: placeOrder_def shop_def widget_def mk_order_def buyer_name_def non_guest_def
          truthy_str_def toLowerCase_bob admin_account_def toLowerCase_admin nextId_def Let_def
          new_order_def)
  have h1: "r_username ?req = Some ''bob''" by simp
  have h2: "non_guest ''bob''" by (simp add: non_guest_def truthy_str_def toLowerCase_bob)
  have h3: "find (\<lambda>a. toLowerCase (acc_username a) = toLowerCase ''bob'') (accounts shop) = None"
    by (simp add: shop_def admin_account_def toLowerCase_bob toLowerCase_admin)
  have h4: "r_itemId ?req = Some 1" by simp
  have h5: "(1::int) \<noteq> 0" by simp
  have h6: "find (\<lambda>i. item_id i = 1 \<and> active i) (items shop) = Some widget"
    by (simp add: shop_def widget_def)
  have h7: "\<not> stock widget < (case r_quantity ?req of None \<Rightarrow> 1 | Some q \<Rightarrow> q)"
    by (simp add: widget_def)
  have h8: "\<forall>x\<in>set (orders shop). 0 < order_id x" by (simp add: shop_def)
  from C10_unknown_username [OF h1 h2 h3 h4 h5 h6 h7 h8, of half "''day2''" demo_compare "''day3''"]
  obtain d' ord where p: "placeOrder half ''day2'' shop ?req = (d', Inr ord)"
    and f: "find (\<lambda>x. order_id x = order_id ord) (orders d') = Some ord"
    and s: "status ord = ''processing''" and n: "username ord = ''bob''"
    and c: "\<And>dl x creq. c_orderId creq = Some (order_id ord) \<Longrightarrow> c_username creq = ''bob''
              \<Longrightarrow> find (\<lambda>y. order_id y = order_id ord) (orders dl) = Some x
              \<Longrightarrow> username x = ''bob'' \<Longrightarrow> status x \<noteq> ''canceled''
              \<Longrightarrow> cancelOrder demo_compare ''day3'' dl creq =
                    (dl\<lparr>items := update_first (\<lambda>i. item_id i = itemId x)
                                    (\<lambda>i. i\<lparr>stock := stock i + quantity x\<rparr>) (items dl),
                        orders := update_first (\<lambda>y. order_id y = order_id ord)
                                    (\<lambda>y. y\<lparr>status := ''canceled'', canceledAt := Some ''day3''\<rparr>)
                                    (orders dl)\<rparr>,
                     Inr (x\<lparr>status := ''canceled'', canceledAt := Some ''day3''\<rparr>))"
    by blast
  have "(d', Inr ord :: error + order) = (?d', Inr ?ord)"
    by (rule trans [OF p [symmetric] placed])
  then have eq: "d' = ?d'" "ord = ?ord" by (simp_all only: prod.inject sum.inject)
  have "order_id ord = 1" by (simp add: eq mk_order_def)
  with c [of ?creq d' ord] f s n
  have "cancelOrder demo_compare ''day3'' d' ?creq =
          (d'\<lparr>items := update_first (\<lambda>i. item_id i = itemId ord)
                          (\<lambda>i. i\<lparr>stock := stock i + quantity ord\<rparr>) (items d'),
              orders := update_first (\<lambda>y. order_id y = order_id ord)
                          (\<lambda>y. y\<lparr>status := ''canceled'', canceledAt := Some ''day3''\<rparr>)
                          (orders d')\<rparr>,
           Inr (ord\<lparr>status := ''canceled'', canceledAt := Some ''day3''\<rparr>))"
    by simp
  then have "cancelOrder demo_compare ''day3'' ?d' ?creq =
          (shop\<lparr>items := [widget],
                orders := [(mk_order 1 ''bob'' 2 ''canceled'')
                             \<lparr>createdAt := ''day2'', canceledAt := Some ''day3''\<rparr>]\<rparr>,
           Inr ((mk_order 1 ''bob'' 2 ''canceled'')
                  \<lparr>createdAt := ''day2'', canceledAt := Some ''day3''\<rparr>))"
    by (simp add: eq shop_def widget_def mk_order_def)
  with placed show ?thesis by (simp only: simp_thms)
qed

section \<open>Properties of the administrator's requests and of request sequences\<close>

text \<open>
  C4. With the administrator's credentials, taking down an existing item marks it
  inactive, cancels exactly the orders that refer to it and are not yet canceled, adds
  the sum of their quantities to its stock and answers with their number. Every other
  order, in particular an order of this item that was canceled before, is left as it
  was, and its quantity is not added.
\<close>

theorem C4_takedown:
  assumes adm: "checkAdmin compareSync d cred"
      and found: "find (\<lambda>i. item_id i = iid) (items d) = Some it"
  shows "takedownItem compareSync now d cred iid =
     (d\<lparr>items := update_first (\<lambda>i. item_id i = iid)
              (\<lambda>_. it\<lparr>active := False,
                       stock := stock it + sum_list (map quantity
                         (filter (\<lambda>x. itemId x = iid \<and> status x \<noteq> ''canceled'') (orders d)))\<rparr>)
              (items d),
         orders := map (\<lambda>x. if itemId x = iid \<and> status x \<noteq> ''canceled''
                             then x\<lparr>status := ''canceled'', canceledAt := Some now\<rparr> else x)
                       (orders d)\<rparr>,
      Inr (length (filter (\<lambda>x. itemId x = iid \<and> status x \<noteq> ''canceled'') (orders d))))"
proof -
  from found have "item_id it = iid" by (rule find_Some_P)
  with adm found show ?thesis
    by (simp add: takedownItem_def cancel_related_eq)
qed

theorem C4_takedown_witness:
  "takedownItem demo_compare ''day5''
     (shop\<lparr>orders := [mk_order 1 ''bob'' 2 ''processing'', mk_order 2 ''amy'' 4 ''canceled'',
                       mk_order 3 ''cy'' 1 ''scheduled'',
                       (mk_order 4 ''dee'' 3 ''processing'')\<lparr>itemId := 2\<rparr>]\<rparr>)
     admin_cred 1
   = (shop\<lparr>items := [widget\<lparr>active := False, stock := 8\<rparr>],
           orders := [(mk_order 1 ''bob'' 2 ''canceled'')\<lparr>canceledAt := Some ''day5''\<rparr>,
                      mk_order 2 ''amy'' 4 ''canceled'',
                      (mk_order 3 ''cy'' 1 ''canceled'')\<lparr>canceledAt := Some ''day5''\<rparr>,
                      (mk_order 4 ''dee'' 3 ''processing'')\<lparr>itemId := 2\<rparr>]\<rparr>,
      Inr 2)"
proof -
  let ?d = "shop\<lparr>orders := [mk_order 1 ''bob'' 2 ''processing'', mk_order 2 ''amy'' 4 ''canceled'',
                       mk_order 3 ''cy'' 1 ''scheduled'',
                       (mk_order 4 ''dee'' 3 ''processing'')\<lparr>itemId := 2\<rparr>]\<rparr>"
  have adm: "checkAdmin demo_compare ?d admin_cred"
    by (simp add: checkAdmin_def checkAdminCredentials_def admin_cred_def shop_def
          admin_account_def truthy_str_def toLowerCase_admin demo_compare_def)
  have found: "find (\<lambda>i. item_id i = 1) (items ?d) = Some widget"
    by (simp add: shop_def widget_def)
  from C4_takedown [OF adm found, of "''day5''"] show ?thesis
    by (simp add: shop_def widget_def mk_order_def)
qed

text \<open>
  C5 (what the code does). The arrival-date update does not look at the order's status.
  Applied to a canceled order it stores the status \<open>scheduled\<close>; the order can then be
  canceled once more, which adds its quantity to the stock a second time (here the
  stock of five, already restored by the first cancellation, becomes seven).
\<close>

theorem C5_arrival_update_revives_canceled_order:
  "updateArrival demo_compare (shop\<lparr>orders := [mk_order 1 ''bob'' 2 ''canceled'']\<rparr>)
     admin_cred 1 (Some ''day9'')
   = (shop\<lparr>orders := [(mk_order 1 ''bob'' 2 ''scheduled'')\<lparr>arrivalDate := Some ''day9''\<rparr>]\<rparr>,
      Inr ((mk_order 1 ''bob'' 2 ''scheduled'')\<lparr>arrivalDate := Some ''day9''\<rparr>))
   \<and> cancelOrder demo_compare ''day4''
       (shop\<lparr>orders := [(mk_order 1 ''bob'' 2 ''scheduled'')\<lparr>arrivalDate := Some ''day9''\<rparr>]\<rparr>)
       \<lparr>c_orderId = Some 1, c_username = ''bob'', c_password = [], c_cancelToken = None\<rparr>
   = (shop\<lparr>items := [widget\<lparr>stock := 7\<rparr>],
           orders := [(mk_order 1 ''bob'' 2 ''canceled'')
                        \<lparr>arrivalDate := Some ''day9'', canceledAt := Some ''day4''\<rparr>]\<rparr>,
      Inr ((mk_order 1 ''bob'' 2 ''canceled'')
             \<lparr>arrivalDate := Some ''day9'', canceledAt := Some ''day4''\<rparr>))"
  by (simp add: updateArrival_def cancelOrder_def authorized_def checkAdmin_def
        checkAdminCredentials_def admin_cred_def shop_def widget_def admin_account_def
        mk_order_def truthy_str_def truthy_opt_def toLowerCase_admin toLowerCase_bob
        demo_compare_def Let_def)

text \<open>
  C1 (what the code does). The stock test \<open>item.stock < quantity\<close> lets a negative
  quantity through. Three requests by the visitor ``bob'' on the widget (five in stock):
  an order of \<open>-5\<close> (stock 10), an order of 10 (stock 0), and the cancellation of the
  first order, which adds \<open>-5\<close>. The stock ends at \<open>-5\<close>. (When no quantity is
  negative the stock stays at or above zero: \<open>stock_ok_run\<close>.)
\<close>

theorem C1_stock_goes_negative:
  "map stock (items (run demo_compare half ''day2''
      [Place \<lparr>r_username = Some ''bob'', r_buyerFullName = None, r_itemId = Some 1,
              r_quantity = Some (- 5)\<rparr>,
       Place \<lparr>r_username = Some ''bob'', r_buyerFullName = None, r_itemId = Some 1,
              r_quantity = Some 10\<rparr>,
       Cancel \<lparr>c_orderId = Some 1, c_username = ''bob'', c_password = [],
               c_cancelToken = None\<rparr>]
      shop)) = [- 5]"
  by (simp add: run_def handle_def placeOrder_def new_order_def cancelOrder_def authorized_def
        buyer_name_def non_guest_def shop_def widget_def admin_account_def nextId_def
        truthy_str_def truthy_opt_def toLowerCase_admin toLowerCase_bob
        checkAdminCredentials_def Let_def)

end
